theory Spec2Isabelle
  imports Complex_Main
begin

section \<open>Cart lines and the cart operations of the CartProvider\<close>

text \<open>
  A product identifier as the backend sends it: a JavaScript number or a string.
  Strict equality \<^verbatim>\<open>===\<close> on two such values is equality of the tag and of the value.
\<close>

datatype jsid = NumId int | StrId string

text \<open>
  A cart line is the product object with a \<^verbatim>\<open>quantity\<close> property. The product object the
  views pass to \<^verbatim>\<open>addToCart\<close> has the same shape (its own \<^verbatim>\<open>quantity\<close>, if any, is
  overwritten by the spread). JavaScript numbers are IEEE-754 doubles. A price holds the
  value of a finite double, which is a rational number; the arithmetic on prices is that of
  doubles, which rounds, and not that of the rationals (see \<open>getCartTotal\<close>).
  Quantities are integers: the additions made on them are exact on doubles below \<open>2^53\<close>.
  The remaining product properties are carried along in \<open>other\<close>.
\<close>

record item =
  id' :: jsid
  name :: string
  price :: rat
  imageUrl :: "string option"
  quantity :: int
  other :: "(string \<times> string) list"

text \<open>
  The four mutations, each as the function from the previous list to the next one that the
  source hands to \<^verbatim>\<open>setCartItems\<close>.
\<close>

definition addToCart :: "item \<Rightarrow> item list \<Rightarrow> item list" where
  "addToCart product prevItems =
     (case find (\<lambda>item. id' item = id' product) prevItems of
        Some existingItem \<Rightarrow>
          map (\<lambda>item. if id' item = id' product
                       then item\<lparr>quantity := quantity item + 1\<rparr>
                       else item) prevItems
      | None \<Rightarrow> prevItems @ [product\<lparr>quantity := 1\<rparr>])"

definition removeFromCart :: "jsid \<Rightarrow> item list \<Rightarrow> item list" where
  "removeFromCart productId prevItems = filter (\<lambda>item. id' item \<noteq> productId) prevItems"

definition updateQuantity :: "jsid \<Rightarrow> int \<Rightarrow> item list \<Rightarrow> item list" where
  "updateQuantity productId newQuantity prevItems =
     (if newQuantity \<le> 0 then removeFromCart productId prevItems
      else map (\<lambda>item. if id' item = productId
                        then item\<lparr>quantity := newQuantity\<rparr>
                        else item) prevItems)"

definition clearCart :: "item list \<Rightarrow> item list" where
  "clearCart prevItems = []"

text \<open>
  The two queries: \<^verbatim>\<open>reduce\<close> is a fold from the left, starting at 0. In \<open>getCartTotal\<close>
  the \<^verbatim>\<open>+\<close> and \<^verbatim>\<open>*\<close> of the source are the operations on doubles, which round their
  result: they are the parameters \<open>add\<close> and \<open>mul\<close>, from the values of two doubles to the
  value of the result.
\<close>

definition getCartTotal ::
  "(rat \<Rightarrow> rat \<Rightarrow> rat) \<Rightarrow> (rat \<Rightarrow> rat \<Rightarrow> rat) \<Rightarrow> item list \<Rightarrow> rat" where
  "getCartTotal add mul cart =
     foldl (\<lambda>acc item. add acc (mul (price item) (of_int (quantity item)))) 0 cart"

definition getCartItemsCount :: "item list \<Rightarrow> int" where
  "getCartItemsCount cart = foldl (\<lambda>acc item. acc + quantity item) 0 cart"

text \<open>A call of one of the four mutations, and the sequence of calls applied in order.\<close>

datatype cart_op =
    AddToCart item
  | RemoveFromCart jsid
  | UpdateQuantity jsid int
  | ClearCart

fun apply_op :: "cart_op \<Rightarrow> item list \<Rightarrow> item list" where
  "apply_op (AddToCart product) prevItems = addToCart product prevItems"
| "apply_op (RemoveFromCart productId) prevItems = removeFromCart productId prevItems"
| "apply_op (UpdateQuantity productId q) prevItems = updateQuantity productId q prevItems"
| "apply_op ClearCart prevItems = clearCart prevItems"

definition run_ops :: "cart_op list \<Rightarrow> item list \<Rightarrow> item list" where
  "run_ops ops cart = fold apply_op ops cart"

text \<open>The invariant of the data model: one line per product identifier, quantities at least 1.\<close>

definition cart_inv :: "item list \<Rightarrow> bool" where
  "cart_inv cart \<longleftrightarrow>
     distinct (map id' cart) \<and> list_all (\<lambda>item. 1 \<le> quantity item) cart"

section \<open>Browser storage and the values read back from it\<close>

text \<open>
  \<^verbatim>\<open>localStorage\<close> is a table from keys to texts. Two ways it can fail are modelled: access
  to the storage is refused (every call throws), and the quota is used up (\<^verbatim>\<open>setItem\<close>
  throws). \<open>written\<close> records the \<^verbatim>\<open>setItem\<close> calls that went through, oldest first; the
  program never reads it.
\<close>

datatype error = SecurityError | QuotaExceededError | SyntaxError | TypeError

record storage =
  entries :: "string \<Rightarrow> string option"
  denied :: bool
  full :: bool
  written :: "(string \<times> string) list"

definition getItem :: "storage \<Rightarrow> string \<Rightarrow> error + string option" where
  "getItem st key = (if denied st then Inl SecurityError else Inr (entries st key))"

definition setItem :: "storage \<Rightarrow> string \<Rightarrow> string \<Rightarrow> error + storage" where
  "setItem st key text =
     (if denied st then Inl SecurityError
      else if full st then Inl QuotaExceededError
      else Inr (st\<lparr>entries := (entries st)(key \<mapsto> text),
                   written := written st @ [(key, text)]\<rparr>))"

definition removeItem :: "storage \<Rightarrow> string \<Rightarrow> error + storage" where
  "removeItem st key =
     (if denied st then Inl SecurityError
      else Inr (st\<lparr>entries := (entries st)(key := None)\<rparr>))"

text \<open>
  What \<^verbatim>\<open>JSON.parse\<close> can hand to the store, as far as the store looks at it: an object
  is seen through its \<^verbatim>\<open>id\<close> property (absent, or a number or string), an array through its
  cart lines. \<^verbatim>\<open>JSON.parse\<close> and \<^verbatim>\<open>JSON.stringify\<close> themselves are parameters of the
  functions below: \<open>parse text = None\<close> stands for the SyntaxError.
\<close>

datatype jsval =
    JNull
  | JBool bool
  | JNum int
  | JStr string
  | JObj "jsid option"
  | JArr "item list"

text \<open>Truthiness of a value, of an \<^verbatim>\<open>id\<close> property, and of what \<^verbatim>\<open>getItem\<close> returns.\<close>

fun truthy :: "jsval \<Rightarrow> bool" where
  "truthy JNull = False"
| "truthy (JBool b) = b"
| "truthy (JNum n) = (n \<noteq> 0)"
| "truthy (JStr s) = (s \<noteq> [])"
| "truthy (JObj i) = True"
| "truthy (JArr xs) = True"

fun prop_id :: "jsval \<Rightarrow> jsid option" where
  "prop_id (JObj i) = i"
| "prop_id v = None"

fun truthy_id :: "jsid option \<Rightarrow> bool" where
  "truthy_id None = False"
| "truthy_id (Some (NumId n)) = (n \<noteq> 0)"
| "truthy_id (Some (StrId s)) = (s \<noteq> [])"

fun truthy_text :: "string option \<Rightarrow> string option" where
  "truthy_text None = None"
| "truthy_text (Some s) = (if s = [] then None else Some s)"

text \<open>The text a template literal puts in for an \<^verbatim>\<open>id\<close>: decimal digits for a number.\<close>

fun show_nat :: "nat \<Rightarrow> string" where
  "show_nat n =
     (if n < 10 then [''0123456789'' ! n]
      else show_nat (n div 10) @ [''0123456789'' ! (n mod 10)])"

declare show_nat.simps [simp del]

definition show_int :: "int \<Rightarrow> string" where
  "show_int i = (if i < 0 then ''-'' @ show_nat (nat (- i)) else show_nat (nat i))"

fun template_id :: "jsid option \<Rightarrow> string" where
  "template_id None = ''undefined''"
| "template_id (Some (NumId n)) = show_int n"
| "template_id (Some (StrId s)) = s"

section \<open>The CartProvider: storage key, load, persist\<close>

definition getStorageKey :: "(string \<Rightarrow> jsval option) \<Rightarrow> storage \<Rightarrow> string" where
  "getStorageKey parse st =
     (case getItem st ''user'' of
        Inl e \<Rightarrow> ''cart_guest''
      | Inr stored \<Rightarrow>
          (case parse (case truthy_text stored of None \<Rightarrow> ''null'' | Some text \<Rightarrow> text) of
             None \<Rightarrow> ''cart_guest''
           | Some user \<Rightarrow>
               if truthy user \<and> truthy_id (prop_id user)
               then ''cart_user_'' @ template_id (prop_id user)
               else ''cart_guest''))"

definition legacyKey :: string where
  "legacyKey = ''cart''"

text \<open>
  The body of the \<^verbatim>\<open>try\<close> block of \<^verbatim>\<open>loadCartFromStorage\<close>: the storage as the calls made
  so far have left it, and either the error thrown or the value handed to
  \<^verbatim>\<open>setCartItems\<close>.
\<close>

definition loadCartBody ::
  "(string \<Rightarrow> jsval option) \<Rightarrow> storage \<Rightarrow> string \<Rightarrow> storage \<times> (error + jsval)" where
  "loadCartBody parse st key =
     (case getItem st key of
        Inl e \<Rightarrow> (st, Inl e)
      | Inr perUser \<Rightarrow>
          (case truthy_text perUser of
             Some text \<Rightarrow>
               (case parse text of
                  None \<Rightarrow> (st, Inl SyntaxError)
                | Some v \<Rightarrow> (st, Inr v))
           | None \<Rightarrow>
               (case getItem st legacyKey of
                  Inl e \<Rightarrow> (st, Inl e)
                | Inr legacyItem \<Rightarrow>
                    (case truthy_text legacyItem of
                       None \<Rightarrow> (st, Inr (JArr []))
                     | Some legacy \<Rightarrow>
                         (case setItem st key legacy of
                            Inl e \<Rightarrow> (st, Inl e)
                          | Inr st1 \<Rightarrow>
                              (case removeItem st1 legacyKey of
                                 Inl e \<Rightarrow> (st1, Inl e)
                               | Inr st2 \<Rightarrow>
                                   (case parse legacy of
                                      None \<Rightarrow> (st2, Inl SyntaxError)
                                    | Some v \<Rightarrow> (st2, Inr v))))))))"

text \<open>\<^verbatim>\<open>loadCartFromStorage\<close>: the \<^verbatim>\<open>catch\<close> turns every error into the empty cart.\<close>

definition loadCartFromStorage ::
  "(string \<Rightarrow> jsval option) \<Rightarrow> storage \<Rightarrow> storage \<times> jsval" where
  "loadCartFromStorage parse st =
     (case loadCartBody parse st (getStorageKey parse st) of
        (st', Inl e) \<Rightarrow> (st', JArr [])
      | (st', Inr v) \<Rightarrow> (st', v))"

text \<open>
  \<^verbatim>\<open>cartItems.reduce(...)\<close> of the two queries, on the value that loading has put into
  \<^verbatim>\<open>cartItems\<close>: an array has \<^verbatim>\<open>reduce\<close>; on \<^verbatim>\<open>null\<close> and on every other value that is
  not an array the call throws a TypeError.
\<close>

fun cartItems_reduce :: "(item list \<Rightarrow> 'a) \<Rightarrow> jsval \<Rightarrow> error + 'a" where
  "cartItems_reduce query (JArr xs) = Inr (query xs)"
| "cartItems_reduce query v = Inl TypeError"

text \<open>The persist effect: write the snapshot under the current key, ignoring a failure.\<close>

definition persist ::
  "(item list \<Rightarrow> string) \<Rightarrow> (string \<Rightarrow> jsval option) \<Rightarrow> storage \<Rightarrow> item list \<Rightarrow> storage" where
  "persist stringify parse st cart =
     (case setItem st (getStorageKey parse st) (stringify cart) of
        Inl e \<Rightarrow> st
      | Inr st' \<Rightarrow> st')"

text \<open>
  The provider between two renders. A mutation only hands its update to \<^verbatim>\<open>setCartItems\<close>,
  which queues it; the next render applies the queued updates in call order, and the persist
  effect, whose dependency is \<^verbatim>\<open>cartItems\<close>, runs once after a render that produced a new
  array (each of the four updates returns a new array). The state here is a list of cart
  lines, as the four updates need it. The subscriptions to \<^verbatim>\<open>authChanged\<close> and
  \<^verbatim>\<open>storage\<close> events, which only call \<^verbatim>\<open>loadCartFromStorage\<close> again, and
  \<^verbatim>\<open>storageKeyRef\<close>, which only they read, are left out.
\<close>

record provider =
  cartItems :: "item list"
  pending :: "cart_op list"
  store :: storage

definition call :: "cart_op \<Rightarrow> provider \<Rightarrow> provider" where
  "call c p = p\<lparr>pending := pending p @ [c]\<rparr>"

definition render ::
  "(item list \<Rightarrow> string) \<Rightarrow> (string \<Rightarrow> jsval option) \<Rightarrow> provider \<Rightarrow> provider" where
  "render stringify parse p =
     (if pending p = [] then p
      else \<lparr>cartItems = run_ops (pending p) (cartItems p),
            pending = [],
            store = persist stringify parse (store p) (run_ops (pending p) (cartItems p))\<rparr>)"

text \<open>One event handler that makes the given calls in order, then the render that follows it.\<close>

definition dispatch ::
  "(item list \<Rightarrow> string) \<Rightarrow> (string \<Rightarrow> jsval option) \<Rightarrow> cart_op list \<Rightarrow> provider \<Rightarrow> provider" where
  "dispatch stringify parse calls p = render stringify parse (fold call calls p)"

text \<open>
  \<^verbatim>\<open>handleAddToCart\<close> of the product page: one click calls \<^verbatim>\<open>addToCart(product)\<close> as many
  times as the quantity selected.
\<close>

definition handleAddToCart :: "item \<Rightarrow> nat \<Rightarrow> cart_op list" where
  "handleAddToCart product n = replicate n (AddToCart product)"

section \<open>The checkout form\<close>

text \<open>
  \<^verbatim>\<open>orderService.create\<close> is a parameter: it answers an order with success or with the error
  the rejected request carries. \<open>add\<close> and \<open>mul\<close> are the operations on doubles, as in
  \<open>getCartTotal\<close>. The effects of \<^verbatim>\<open>handleSubmit\<close> are listed in the order they
  are made.
\<close>

datatype api_error = NetworkError | HttpError nat

record order =
  items :: "item list"
  total :: rat
  shippingInfo :: "(string \<times> string) list"

datatype effect =
    ToastError string
  | ToastSuccess string
  | CreateOrder order
  | ClearCartCall
  | Navigate string
  | ConsoleError api_error

definition field :: "(string \<times> string) list \<Rightarrow> string \<Rightarrow> string" where
  "field formData k = (case map_of formData k of None \<Rightarrow> [] | Some v \<Rightarrow> v)"

definition makeOrder ::
  "(rat \<Rightarrow> rat \<Rightarrow> rat) \<Rightarrow> (rat \<Rightarrow> rat \<Rightarrow> rat) \<Rightarrow> (string \<times> string) list \<Rightarrow> item list
     \<Rightarrow> order" where
  "makeOrder add mul formData cart =
     \<lparr>items = cart,
      total = add (getCartTotal add mul cart) 10,
      shippingInfo =
        map (\<lambda>k. (k, field formData k)) [''name'', ''email'', ''address'', ''city'', ''zipCode'']\<rparr>"

definition handleSubmit ::
  "(order \<Rightarrow> api_error + unit) \<Rightarrow> (rat \<Rightarrow> rat \<Rightarrow> rat) \<Rightarrow> (rat \<Rightarrow> rat \<Rightarrow> rat)
     \<Rightarrow> (string \<times> string) list \<Rightarrow> item list \<Rightarrow> item list \<times> effect list" where
  "handleSubmit create add mul formData cart =
     (if length cart = 0 then (cart, [ToastError ''Your cart is empty!''])
      else
        (case create (makeOrder add mul formData cart) of
           Inr response \<Rightarrow>
             (clearCart cart,
              [CreateOrder (makeOrder add mul formData cart), ClearCartCall,
               ToastSuccess ''Order placed successfully!'', Navigate ''/''])
         | Inl e \<Rightarrow>
             (cart,
              [CreateOrder (makeOrder add mul formData cart), ConsoleError e,
               ToastError ''Failed to place order. Please try again.''])))"

section \<open>Inputs of the worked examples\<close>

text \<open>
  Stand-ins for \<^verbatim>\<open>JSON.parse\<close> and \<^verbatim>\<open>JSON.stringify\<close> used to evaluate the examples
  only: \<open>sample_parse\<close> agrees with \<^verbatim>\<open>JSON.parse\<close> on the five texts the examples store
  (any other text is rejected), \<open>sample_stringify\<close> writes the identifier and quantity of
  each line. The theorems hold for every parser and serializer.
\<close>

definition sample_parse :: "string \<Rightarrow> jsval option" where
  \<open>sample_parse text =
     (if text = ''null'' then Some JNull
      else if text = ''[]'' then Some (JArr [])
      else if text = ''{"id":7}'' then Some (JObj (Some (NumId 7)))
      else if text = ''{"id":0}'' then Some (JObj (Some (NumId 0)))
      else if text = ''[{"id":1,"name":"A","price":10,"quantity":2}]''
        then Some (JArr [\<lparr>id' = NumId 1, name = ''A'', price = 10, imageUrl = None,
                          quantity = 2, other = []\<rparr>])
      else None)\<close>

definition sample_stringify :: "item list \<Rightarrow> string" where
  "sample_stringify xs =
     ''['' @ concat (map (\<lambda>l. template_id (Some (id' l)) @ ''x'' @ show_int (quantity l) @ '';'') xs)
     @ '']''"

definition emptyStorage :: storage where
  "emptyStorage = \<lparr>entries = (\<lambda>k. None), denied = False, full = False, written = []\<rparr>"

definition freshProvider :: provider where
  "freshProvider = \<lparr>cartItems = [], pending = [], store = emptyStorage\<rparr>"

text \<open>Two products used in the worked examples.\<close>

definition productA :: item where
  "productA = \<lparr>id' = NumId 1, name = ''A'', price = 10, imageUrl = None,
                quantity = 0, other = []\<rparr>"

definition productB :: item where
  "productB = \<lparr>id' = NumId 2, name = ''B'', price = 5 / 2, imageUrl = Some ''b.png'',
                quantity = 0, other = [(''category'', ''tools'')]\<rparr>"

text \<open>Storages, a provider and two order services used in the worked examples.\<close>

definition storageWithLegacy :: storage where
  "storageWithLegacy = emptyStorage\<lparr>entries := (\<lambda>k. None)(''cart'' \<mapsto> ''[]'', ''token'' \<mapsto> ''t'')\<rparr>"

definition storageNullSnapshot :: storage where
  "storageNullSnapshot = emptyStorage\<lparr>entries := (\<lambda>k. None)(''cart_guest'' \<mapsto> ''null'')\<rparr>"

definition storageFullLegacy :: storage where
  \<open>storageFullLegacy =
     emptyStorage\<lparr>entries := (\<lambda>k. None)(''cart'' \<mapsto> ''[{"id":1,"name":"A","price":10,"quantity":2}]''),
                  full := True\<rparr>\<close>

definition storageUser7 :: storage where
  \<open>storageUser7 = emptyStorage\<lparr>entries := (\<lambda>k. None)(''user'' \<mapsto> ''{"id":7}'')\<rparr>\<close>

definition storageUser0 :: storage where
  \<open>storageUser0 = emptyStorage\<lparr>entries := (\<lambda>k. None)(''user'' \<mapsto> ''{"id":0}'')\<rparr>\<close>

definition storageDenied :: storage where
  "storageDenied = emptyStorage\<lparr>denied := True\<rparr>"

definition storageCorrupt :: storage where
  "storageCorrupt = emptyStorage\<lparr>entries := (\<lambda>k. None)(''cart_guest'' \<mapsto> ''{oops'')\<rparr>"

definition storageCorruptLegacy :: storage where
  "storageCorruptLegacy = emptyStorage\<lparr>entries := (\<lambda>k. None)(''cart'' \<mapsto> ''{oops'')\<rparr>"

definition storageCorruptUser :: storage where
  "storageCorruptUser = emptyStorage\<lparr>entries := (\<lambda>k. None)(''user'' \<mapsto> ''{oops'')\<rparr>"

definition providerFull :: provider where
  "providerFull = \<lparr>cartItems = [], pending = [AddToCart productA],
                    store = emptyStorage\<lparr>full := True\<rparr>\<rparr>"

text \<open>
  The operations on doubles where the exact result is a double, as it is for the numbers of
  the worked examples: there nothing is rounded.
\<close>

definition exact_add :: "rat \<Rightarrow> rat \<Rightarrow> rat" where
  "exact_add a b = a + b"

definition exact_mul :: "rat \<Rightarrow> rat \<Rightarrow> rat" where
  "exact_mul a b = a * b"

definition acceptOrder :: "order \<Rightarrow> api_error + unit" where
  "acceptOrder ord = Inr ()"

definition rejectOrder :: "order \<Rightarrow> api_error + unit" where
  "rejectOrder ord = Inl (HttpError 500)"

section \<open>Properties of the cart operations\<close>

lemma find_None_ids: "find (\<lambda>item. id' item = i) xs = None \<longleftrightarrow> i \<notin> id' ` set xs"
  by (induction xs) auto

lemma addToCart_absent:
  "i \<notin> id' ` set xs \<Longrightarrow> id' p = i \<Longrightarrow> addToCart p xs = xs @ [p\<lparr>quantity := 1\<rparr>]"
  using find_None_ids [of i xs] by (simp add: addToCart_def)

lemma addToCart_present:
  "id' p \<in> id' ` set xs \<Longrightarrow>
   addToCart p xs =
     map (\<lambda>item. if id' item = id' p then item\<lparr>quantity := quantity item + 1\<rparr> else item) xs"
  using find_None_ids [of "id' p" xs] by (auto simp: addToCart_def split: option.splits)

lemma map_ids_bump:
  "map id' (map (\<lambda>item. if P item then item\<lparr>quantity := f item\<rparr> else item) xs) = map id' xs"
  by (induction xs) auto

lemma filter_absent: "i \<notin> id' ` set xs \<Longrightarrow> filter (\<lambda>l. id' l = i) xs = []"
  by (induction xs) auto

lemma filter_bump:
  "filter (\<lambda>l. id' l = i)
     (map (\<lambda>item. if id' item = i then item\<lparr>quantity := quantity item + 1\<rparr> else item) xs) =
   map (\<lambda>item. item\<lparr>quantity := quantity item + 1\<rparr>) (filter (\<lambda>l. id' l = i) xs)"
  by (induction xs) auto

lemma filter_single_mem: "filter P xs = [l] \<Longrightarrow> l \<in> set xs \<and> P l"
proof -
  assume h: "filter P xs = [l]"
  have "l \<in> set (filter P xs)" by (simp add: h)
  then show ?thesis by simp
qed

lemma repeated_add_present:
  "filter (\<lambda>l. id' l = i) xs = [l] \<Longrightarrow> \<forall>q\<in>set ps. id' q = i \<Longrightarrow>
   filter (\<lambda>l. id' l = i) (fold addToCart ps xs) = [l\<lparr>quantity := quantity l + int (length ps)\<rparr>]"
proof (induction ps arbitrary: xs l)
  case Nil
  then show ?case by simp
next
  case (Cons p ps)
  have pid: "id' p = i" using Cons.prems(2) by simp
  have mem: "l \<in> set xs \<and> id' l = i" using filter_single_mem [OF Cons.prems(1)] .
  then have "id' p \<in> id' ` set xs" using pid by (metis imageI)
  then have step: "filter (\<lambda>l. id' l = i) (addToCart p xs) = [l\<lparr>quantity := quantity l + 1\<rparr>]"
    using Cons.prems(1) pid by (simp add: addToCart_present filter_bump)
  have "filter (\<lambda>l. id' l = i) (fold addToCart ps (addToCart p xs)) =
        [(l\<lparr>quantity := quantity l + 1\<rparr>)\<lparr>quantity := quantity (l\<lparr>quantity := quantity l + 1\<rparr>) + int (length ps)\<rparr>]"
    using Cons.IH [OF step] Cons.prems(2) by simp
  then show ?case by (simp add: add.assoc)
qed

text \<open>
  C1. addToCart: when a line with the product's identifier exists, its quantity goes up by
  exactly 1 and the list keeps its length and its other lines; otherwise a line with
  quantity 1 is appended. Starting from a cart with no line for an identifier, a non-empty
  sequence of n addToCart calls with that identifier leaves exactly one line for it, the
  first product passed, with quantity n.
\<close>

theorem addToCart_increments_or_appends:
  "(id' p \<in> id' ` set cart \<longrightarrow>
      addToCart p cart =
        map (\<lambda>l. if id' l = id' p then l\<lparr>quantity := quantity l + 1\<rparr> else l) cart
      \<and> length (addToCart p cart) = length cart)
   \<and> (id' p \<notin> id' ` set cart \<longrightarrow> addToCart p cart = cart @ [p\<lparr>quantity := 1\<rparr>])
   \<and> (ps \<noteq> [] \<and> (\<forall>q\<in>set ps. id' q = i) \<and> i \<notin> id' ` set cart \<longrightarrow>
        filter (\<lambda>l. id' l = i) (fold addToCart ps cart) =
          [(hd ps)\<lparr>quantity := int (length ps)\<rparr>])"
proof (intro conjI impI)
  assume "id' p \<in> id' ` set cart"
  then show "addToCart p cart =
      map (\<lambda>l. if id' l = id' p then l\<lparr>quantity := quantity l + 1\<rparr> else l) cart"
    by (rule addToCart_present)
  then show "length (addToCart p cart) = length cart" by simp
next
  assume "id' p \<notin> id' ` set cart"
  then show "addToCart p cart = cart @ [p\<lparr>quantity := 1\<rparr>]"
    by (simp add: addToCart_absent)
next
  assume a: "ps \<noteq> [] \<and> (\<forall>q\<in>set ps. id' q = i) \<and> i \<notin> id' ` set cart"
  then obtain q qs where ps: "ps = q # qs" by (cases ps) auto
  have qid: "id' q = i" and rest: "\<forall>r\<in>set qs. id' r = i" using a ps by auto
  have first: "addToCart q cart = cart @ [q\<lparr>quantity := 1\<rparr>]"
    by (rule addToCart_absent [of i]) (use a qid in auto)
  have "filter (\<lambda>l. id' l = i) (addToCart q cart) = [q\<lparr>quantity := 1\<rparr>]"
    using a qid by (simp add: first filter_absent)
  from repeated_add_present [OF this rest]
  show "filter (\<lambda>l. id' l = i) (fold addToCart ps cart) = [(hd ps)\<lparr>quantity := int (length ps)\<rparr>]"
    by (simp add: ps)
qed

theorem addToCart_increments_or_appends_witness:
  "addToCart productA [productB\<lparr>quantity := 3\<rparr>, productA\<lparr>quantity := 1\<rparr>] =
     [productB\<lparr>quantity := 3\<rparr>, productA\<lparr>quantity := 2\<rparr>]
   \<and> addToCart productA [productB\<lparr>quantity := 3\<rparr>] =
     [productB\<lparr>quantity := 3\<rparr>, productA\<lparr>quantity := 1\<rparr>]
   \<and> filter (\<lambda>l. id' l = NumId 1)
       (fold addToCart [productA, productA, productA] [productB\<lparr>quantity := 3\<rparr>]) =
     [productA\<lparr>quantity := 3\<rparr>]"
proof -
  have 1: "id' productA \<in> id' ` set [productB\<lparr>quantity := 3\<rparr>, productA\<lparr>quantity := 1\<rparr>]"
    by (simp add: productA_def productB_def)
  have 2: "id' productA \<notin> id' ` set [productB\<lparr>quantity := 3\<rparr>]"
    by (simp add: productA_def productB_def)
  have 3: "[productA, productA, productA] \<noteq> [] \<and>
           (\<forall>q\<in>set [productA, productA, productA]. id' q = NumId 1) \<and>
           NumId 1 \<notin> id' ` set [productB\<lparr>quantity := 3\<rparr>]"
    by (simp add: productA_def productB_def)
  have a: "addToCart productA [productB\<lparr>quantity := 3\<rparr>, productA\<lparr>quantity := 1\<rparr>] =
      map (\<lambda>l. if id' l = id' productA then l\<lparr>quantity := quantity l + 1\<rparr> else l)
        [productB\<lparr>quantity := 3\<rparr>, productA\<lparr>quantity := 1\<rparr>]"
    using addToCart_increments_or_appends
            [of productA "[productB\<lparr>quantity := 3\<rparr>, productA\<lparr>quantity := 1\<rparr>]" "[]" "NumId 0"] 1
    by blast
  have b: "addToCart productA [productB\<lparr>quantity := 3\<rparr>] =
      [productB\<lparr>quantity := 3\<rparr>] @ [productA\<lparr>quantity := 1\<rparr>]"
    using addToCart_increments_or_appends [of productA "[productB\<lparr>quantity := 3\<rparr>]" "[]" "NumId 0"] 2
    by blast
  have c: "filter (\<lambda>l. id' l = NumId 1)
       (fold addToCart [productA, productA, productA] [productB\<lparr>quantity := 3\<rparr>]) =
     [(hd [productA, productA, productA])\<lparr>quantity := int (length [productA, productA, productA])\<rparr>]"
    using addToCart_increments_or_appends
            [of productA "[productB\<lparr>quantity := 3\<rparr>]" "[productA, productA, productA]" "NumId 1"] 3
    by blast
  have a': "addToCart productA [productB\<lparr>quantity := 3\<rparr>, productA\<lparr>quantity := 1\<rparr>] =
     [productB\<lparr>quantity := 3\<rparr>, productA\<lparr>quantity := 2\<rparr>]"
    unfolding a by (simp add: productA_def productB_def)
  show ?thesis using a' b c by simp
qed


subsection \<open>The invariant over reachable carts\<close>

lemma cart_inv_addToCart: "cart_inv xs \<Longrightarrow> cart_inv (addToCart p xs)"
proof (cases "id' p \<in> id' ` set xs")
  case True
  assume "cart_inv xs"
  then show ?thesis
    unfolding addToCart_present [OF True] cart_inv_def map_ids_bump
    by (auto simp: list_all_iff)
next
  case False
  assume "cart_inv xs"
  then show ?thesis
    using False by (simp add: addToCart_absent [of "id' p"] cart_inv_def)
qed

lemma cart_inv_removeFromCart: "cart_inv xs \<Longrightarrow> cart_inv (removeFromCart i xs)"
  by (auto simp: cart_inv_def removeFromCart_def distinct_map_filter list_all_iff)

lemma cart_inv_updateQuantity: "cart_inv xs \<Longrightarrow> cart_inv (updateQuantity i q xs)"
proof (cases "q \<le> 0")
  case True
  assume "cart_inv xs"
  then show ?thesis using True by (simp add: updateQuantity_def cart_inv_removeFromCart)
next
  case False
  assume inv: "cart_inv xs"
  from False have e: "updateQuantity i q xs =
      map (\<lambda>item. if id' item = i then item\<lparr>quantity := q\<rparr> else item) xs"
    by (simp add: updateQuantity_def)
  have d: "distinct (map id' (updateQuantity i q xs))"
    unfolding e map_ids_bump using inv by (simp add: cart_inv_def)
  have l: "list_all (\<lambda>item. 1 \<le> quantity item) (updateQuantity i q xs)"
    unfolding e using inv False by (auto simp: cart_inv_def list_all_iff)
  show ?thesis by (simp add: cart_inv_def d l)
qed

lemma cart_inv_Nil: "cart_inv []"
  by (simp add: cart_inv_def)

lemma cart_inv_apply_op: "cart_inv xs \<Longrightarrow> cart_inv (apply_op c xs)"
  by (cases c)
     (simp_all add: cart_inv_addToCart cart_inv_removeFromCart cart_inv_updateQuantity
        clearCart_def cart_inv_Nil)

lemma cart_inv_fold: "cart_inv xs \<Longrightarrow> cart_inv (fold apply_op ops xs)"
  by (induction ops arbitrary: xs) (simp_all add: cart_inv_apply_op)

text \<open>
  C2. Every cart reached from the empty cart by a sequence of addToCart, removeFromCart,
  updateQuantity and clearCart calls has at most one line per product identifier, and every
  line's quantity is an integer that is at least 1.
\<close>

theorem reachable_cart_inv: "cart_inv (run_ops ops [])"
  unfolding run_ops_def by (rule cart_inv_fold) (rule cart_inv_Nil)

theorem reachable_cart_inv_witness:
  "run_ops [AddToCart productA, AddToCart productB, AddToCart productA,
            UpdateQuantity (NumId 2) 4, RemoveFromCart (NumId 7)] [] =
     [productA\<lparr>quantity := 2\<rparr>, productB\<lparr>quantity := 4\<rparr>]
   \<and> cart_inv (run_ops [AddToCart productA, AddToCart productB, AddToCart productA,
                        UpdateQuantity (NumId 2) 4, RemoveFromCart (NumId 7)] [])"
proof -
  have "run_ops [AddToCart productA, AddToCart productB, AddToCart productA,
            UpdateQuantity (NumId 2) 4, RemoveFromCart (NumId 7)] [] =
     [productA\<lparr>quantity := 2\<rparr>, productB\<lparr>quantity := 4\<rparr>]"
    by (simp add: run_ops_def addToCart_def updateQuantity_def removeFromCart_def
          productA_def productB_def)
  then show ?thesis
    using reachable_cart_inv
            [of "[AddToCart productA, AddToCart productB, AddToCart productA,
                  UpdateQuantity (NumId 2) 4, RemoveFromCart (NumId 7)]"]
    by blast
qed

subsection \<open>updateQuantity against removeFromCart\<close>

lemma map_unchanged_absent:
  "i \<notin> id' ` set xs \<Longrightarrow> map (\<lambda>item. if id' item = i then f item else item) xs = xs"
  by (induction xs) auto

text \<open>
  C3. For a quantity q that is 0 or negative, updateQuantity gives the same cart as
  removeFromCart, in which no line for the identifier is left. For a positive q the list
  keeps its length, every line with the identifier gets quantity q and nothing else
  changes, and the cart is unchanged when no line has the identifier.
\<close>

theorem updateQuantity_cases:
  "(q \<le> 0 \<longrightarrow> updateQuantity i q cart = removeFromCart i cart
              \<and> i \<notin> id' ` set (updateQuantity i q cart))
   \<and> (0 < q \<longrightarrow>
        length (updateQuantity i q cart) = length cart
        \<and> (\<forall>k<length cart.
              updateQuantity i q cart ! k =
                (if id' (cart ! k) = i then (cart ! k)\<lparr>quantity := q\<rparr> else cart ! k)))
   \<and> (0 < q \<and> i \<notin> id' ` set cart \<longrightarrow> updateQuantity i q cart = cart)"
proof (intro conjI impI allI)
  assume "q \<le> 0"
  then show "updateQuantity i q cart = removeFromCart i cart"
    by (simp add: updateQuantity_def)
  then show "i \<notin> id' ` set (updateQuantity i q cart)"
    by (auto simp: removeFromCart_def)
next
  assume "0 < q"
  then show "length (updateQuantity i q cart) = length cart"
    by (simp add: updateQuantity_def)
next
  fix k
  assume "0 < q" and "k < length cart"
  then show "updateQuantity i q cart ! k =
      (if id' (cart ! k) = i then (cart ! k)\<lparr>quantity := q\<rparr> else cart ! k)"
    by (simp add: updateQuantity_def)
next
  assume "0 < q \<and> i \<notin> id' ` set cart"
  then show "updateQuantity i q cart = cart"
    by (simp add: updateQuantity_def map_unchanged_absent)
qed

theorem updateQuantity_cases_witness:
  "updateQuantity (NumId 1) 0 [productA\<lparr>quantity := 2\<rparr>, productB\<lparr>quantity := 1\<rparr>] =
     removeFromCart (NumId 1) [productA\<lparr>quantity := 2\<rparr>, productB\<lparr>quantity := 1\<rparr>]
   \<and> removeFromCart (NumId 1) [productA\<lparr>quantity := 2\<rparr>, productB\<lparr>quantity := 1\<rparr>] =
     [productB\<lparr>quantity := 1\<rparr>]
   \<and> updateQuantity (NumId 1) 5 [productA\<lparr>quantity := 2\<rparr>, productB\<lparr>quantity := 1\<rparr>] ! 0 =
     productA\<lparr>quantity := 5\<rparr>
   \<and> updateQuantity (NumId 7) 5 [productA\<lparr>quantity := 2\<rparr>, productB\<lparr>quantity := 1\<rparr>] =
     [productA\<lparr>quantity := 2\<rparr>, productB\<lparr>quantity := 1\<rparr>]"
proof -
  let ?c = "[productA\<lparr>quantity := 2\<rparr>, productB\<lparr>quantity := 1\<rparr>]"
  have a: "updateQuantity (NumId 1) 0 ?c = removeFromCart (NumId 1) ?c"
    using updateQuantity_cases [of 0 "NumId 1" ?c] by simp
  have b: "removeFromCart (NumId 1) ?c = [productB\<lparr>quantity := 1\<rparr>]"
    by (simp add: removeFromCart_def productA_def productB_def)
  have "(0::nat) < length ?c" by simp
  then have "updateQuantity (NumId 1) 5 ?c ! 0 =
      (if id' (?c ! 0) = NumId 1 then (?c ! 0)\<lparr>quantity := 5\<rparr> else ?c ! 0)"
    using updateQuantity_cases [of 5 "NumId 1" ?c] by simp
  then have c: "updateQuantity (NumId 1) 5 ?c ! 0 = productA\<lparr>quantity := 5\<rparr>"
    by (simp add: productA_def)
  have "NumId 7 \<notin> id' ` set ?c" by (simp add: productA_def productB_def)
  then have d: "updateQuantity (NumId 7) 5 ?c = ?c"
    using updateQuantity_cases [of 5 "NumId 7" ?c] by simp
  show ?thesis using a b c d by simp
qed

subsection \<open>The totals\<close>

lemma foldl_plus_sum_list:
  fixes a :: "'a::comm_monoid_add"
  shows "foldl (\<lambda>acc x. acc + f x) a xs = a + sum_list (map f xs)"
  by (induction xs arbitrary: a) (simp_all add: add.assoc)

text \<open>
  The count is a sum of integers. Of the total, whose additions and multiplications round,
  only the sign is proved here: it is non-negative for all operations \<open>add\<close> and \<open>mul\<close> that
  give a non-negative result on non-negative arguments, as the operations on doubles do.
\<close>

lemma getCartItemsCount_sum: "getCartItemsCount cart = (\<Sum>l\<leftarrow>cart. quantity l)"
  by (simp add: getCartItemsCount_def foldl_plus_sum_list)

lemma foldl_add_nonneg:
  assumes add: "\<And>a b. (0::rat) \<le> a \<Longrightarrow> 0 \<le> b \<Longrightarrow> 0 \<le> add a b"
    and f: "\<And>x. x \<in> set xs \<Longrightarrow> 0 \<le> f x"
    and a: "0 \<le> a"
  shows "0 \<le> foldl (\<lambda>acc x. add acc (f x)) a xs"
  using f a by (induction xs arbitrary: a) (simp_all add: add)

lemma getCartTotal_nonneg:
  assumes add: "\<And>a b. (0::rat) \<le> a \<Longrightarrow> 0 \<le> b \<Longrightarrow> 0 \<le> add a b"
    and mul: "\<And>a b. (0::rat) \<le> a \<Longrightarrow> 0 \<le> b \<Longrightarrow> 0 \<le> mul a b"
    and lines: "\<And>l. l \<in> set cart \<Longrightarrow> 0 \<le> price l \<and> 1 \<le> quantity l"
  shows "0 \<le> getCartTotal add mul cart"
proof -
  have f: "0 \<le> mul (price l) (of_int (quantity l))" if "l \<in> set cart" for l
  proof -
    have "0 \<le> price l" and "(0::rat) \<le> of_int (quantity l)"
      using lines [OF that] by simp_all
    then show ?thesis by (rule mul)
  qed
  have z: "(0::rat) \<le> 0" by simp
  show ?thesis
    unfolding getCartTotal_def
    by (rule foldl_add_nonneg [where f = "\<lambda>l. mul (price l) (of_int (quantity l))", OF add f z])
qed

subsection \<open>What addToCart leaves alone\<close>

lemma addToCart_same_id: "id' d \<in> id' ` set cart \<Longrightarrow> id' p = id' d \<Longrightarrow> addToCart p cart =
      map (\<lambda>item. if id' item = id' d then item\<lparr>quantity := quantity item + 1\<rparr> else item) cart"
  using addToCart_present [of p cart] by simp

text \<open>
  C10. When the cart has a line with the product's identifier, addToCart keeps the length
  and the order of the list, keeps every property of every line other than the quantity,
  raises the quantity of the lines with that identifier by 1 and leaves the other lines as
  they are; the result is the same for every product object with that identifier, so the
  properties of the object passed are not used.
\<close>

theorem addToCart_frame:
  assumes "id' d \<in> id' ` set cart"
  shows "length (addToCart d cart) = length cart
    \<and> (\<forall>k<length cart.
          id' (addToCart d cart ! k) = id' (cart ! k)
        \<and> name (addToCart d cart ! k) = name (cart ! k)
        \<and> price (addToCart d cart ! k) = price (cart ! k)
        \<and> imageUrl (addToCart d cart ! k) = imageUrl (cart ! k)
        \<and> other (addToCart d cart ! k) = other (cart ! k)
        \<and> quantity (addToCart d cart ! k) =
            (if id' (cart ! k) = id' d then quantity (cart ! k) + 1 else quantity (cart ! k))
        \<and> (id' (cart ! k) \<noteq> id' d \<longrightarrow> addToCart d cart ! k = cart ! k))
    \<and> (\<forall>d2. id' d2 = id' d \<longrightarrow> addToCart d2 cart = addToCart d cart)"
proof (intro conjI allI impI)
  have e: "addToCart d cart =
      map (\<lambda>item. if id' item = id' d then item\<lparr>quantity := quantity item + 1\<rparr> else item) cart"
    using assms by (rule addToCart_same_id) simp
  show "length (addToCart d cart) = length cart" by (simp add: e)
  fix k assume k: "k < length cart"
  show "id' (addToCart d cart ! k) = id' (cart ! k)" using k by (simp add: e)
  show "name (addToCart d cart ! k) = name (cart ! k)" using k by (simp add: e)
  show "price (addToCart d cart ! k) = price (cart ! k)" using k by (simp add: e)
  show "imageUrl (addToCart d cart ! k) = imageUrl (cart ! k)" using k by (simp add: e)
  show "other (addToCart d cart ! k) = other (cart ! k)" using k by (simp add: e)
  show "quantity (addToCart d cart ! k) =
            (if id' (cart ! k) = id' d then quantity (cart ! k) + 1 else quantity (cart ! k))"
    using k by (simp add: e)
  show "addToCart d cart ! k = cart ! k" if "id' (cart ! k) \<noteq> id' d"
    using k that by (simp add: e)
next
  fix d2 :: item assume "id' d2 = id' d"
  then show "addToCart d2 cart = addToCart d cart"
    using addToCart_same_id [OF assms, of d2] addToCart_same_id [OF assms, of d] by simp
qed

theorem addToCart_frame_witness:
  "addToCart (productA\<lparr>name := ''renamed'', price := 99\<rparr>)
      [productB\<lparr>quantity := 3\<rparr>, productA\<lparr>quantity := 1\<rparr>] =
   addToCart productA [productB\<lparr>quantity := 3\<rparr>, productA\<lparr>quantity := 1\<rparr>]
   \<and> name (addToCart (productA\<lparr>name := ''renamed'', price := 99\<rparr>)
        [productB\<lparr>quantity := 3\<rparr>, productA\<lparr>quantity := 1\<rparr>] ! 1) = ''A''
   \<and> quantity (addToCart (productA\<lparr>name := ''renamed'', price := 99\<rparr>)
        [productB\<lparr>quantity := 3\<rparr>, productA\<lparr>quantity := 1\<rparr>] ! 1) = 2
   \<and> addToCart (productA\<lparr>name := ''renamed'', price := 99\<rparr>)
        [productB\<lparr>quantity := 3\<rparr>, productA\<lparr>quantity := 1\<rparr>] ! 0 = productB\<lparr>quantity := 3\<rparr>"
proof -
  let ?c = "[productB\<lparr>quantity := 3\<rparr>, productA\<lparr>quantity := 1\<rparr>]"
  let ?d = "productA\<lparr>name := ''renamed'', price := 99\<rparr>"
  have h: "id' ?d \<in> id' ` set ?c" by (simp add: productA_def productB_def)
  note f = addToCart_frame [OF h]
  have k1: "(1::nat) < length ?c" and k0: "(0::nat) < length ?c" by simp_all
  have same: "addToCart ?d ?c = addToCart productA ?c"
    by (rule f [THEN conjunct2, THEN conjunct2, rule_format, symmetric])
       (simp add: productA_def)
  note g1 = f [THEN conjunct2, THEN conjunct1, rule_format, OF k1]
  note g0 = f [THEN conjunct2, THEN conjunct1, rule_format, OF k0]
  have n: "name (addToCart ?d ?c ! 1) = ''A''"
    using g1 [THEN conjunct2, THEN conjunct1] by (simp add: productA_def)
  have q: "quantity (addToCart ?d ?c ! 1) = 2"
    using g1 [THEN conjunct2, THEN conjunct2, THEN conjunct2, THEN conjunct2,
              THEN conjunct2, THEN conjunct1]
    by (simp add: productA_def)
  have "id' (?c ! 0) \<noteq> id' ?d" by (simp add: productA_def productB_def)
  then have o: "addToCart ?d ?c ! 0 = productB\<lparr>quantity := 3\<rparr>"
    using g0 [THEN conjunct2, THEN conjunct2, THEN conjunct2, THEN conjunct2,
              THEN conjunct2, THEN conjunct2]
    by simp
  show ?thesis
    by (intro conjI) (rule same, rule n, rule q, rule o)
qed

section \<open>Properties of the store\<close>

subsection \<open>The storage key\<close>

lemma getStorageKey_shape:
  "getStorageKey parse st = ''cart_guest'' \<or> (\<exists>t. getStorageKey parse st = ''cart_user_'' @ t)"
  by (auto simp: getStorageKey_def split: sum.splits option.splits)

lemma getStorageKey_not_user: "getStorageKey parse st \<noteq> ''user''"
  using getStorageKey_shape [of parse st] by auto

lemma getStorageKey_not_legacy: "getStorageKey parse st \<noteq> legacyKey"
  using getStorageKey_shape [of parse st] by (auto simp: legacyKey_def)

lemma getStorageKey_cong:
  "denied st' = denied st \<Longrightarrow> entries st' ''user'' = entries st ''user'' \<Longrightarrow>
   getStorageKey parse st' = getStorageKey parse st"
  by (simp add: getStorageKey_def getItem_def)

text \<open>
  C9, as the code has it. With a readable storage, when the text under \<^verbatim>\<open>user\<close> parses to
  an object whose \<^verbatim>\<open>id\<close> is truthy (a number other than 0 or a non-empty string), the key is
  \<^verbatim>\<open>cart_user_\<close> followed by that identifier; when the \<^verbatim>\<open>id\<close> is missing, 0 or empty, when
  the text does not parse, when there is no such text, and when the storage cannot be read,
  the key is \<^verbatim>\<open>cart_guest\<close>. The legacy key is \<^verbatim>\<open>cart\<close>.
\<close>

theorem storage_key_cases:
  "(\<not> denied st \<and> truthy_text (entries st ''user'') = Some text
      \<and> parse text = Some (JObj (Some i)) \<and> truthy_id (Some i) \<longrightarrow>
        getStorageKey parse st = ''cart_user_'' @ template_id (Some i))
   \<and> (\<not> denied st \<and> truthy_text (entries st ''user'') = Some text
      \<and> parse text = Some (JObj i') \<and> \<not> truthy_id i' \<longrightarrow>
        getStorageKey parse st = ''cart_guest'')
   \<and> (\<not> denied st \<and> truthy_text (entries st ''user'') = Some text \<and> parse text = None \<longrightarrow>
        getStorageKey parse st = ''cart_guest'')
   \<and> (\<not> denied st \<and> truthy_text (entries st ''user'') = None \<and> parse ''null'' = Some JNull \<longrightarrow>
        getStorageKey parse st = ''cart_guest'')
   \<and> (denied st \<longrightarrow> getStorageKey parse st = ''cart_guest'')
   \<and> legacyKey = ''cart''"
proof (intro conjI impI)
  assume "\<not> denied st \<and> truthy_text (entries st ''user'') = Some text
      \<and> parse text = Some (JObj (Some i)) \<and> truthy_id (Some i)"
  then show "getStorageKey parse st = ''cart_user_'' @ template_id (Some i)"
    by (simp add: getStorageKey_def getItem_def)
next
  assume "\<not> denied st \<and> truthy_text (entries st ''user'') = Some text
      \<and> parse text = Some (JObj i') \<and> \<not> truthy_id i'"
  then show "getStorageKey parse st = ''cart_guest''"
    by (simp add: getStorageKey_def getItem_def)
next
  assume "\<not> denied st \<and> truthy_text (entries st ''user'') = Some text \<and> parse text = None"
  then show "getStorageKey parse st = ''cart_guest''"
    by (simp add: getStorageKey_def getItem_def)
next
  assume "\<not> denied st \<and> truthy_text (entries st ''user'') = None
      \<and> parse ''null'' = Some JNull"
  then show "getStorageKey parse st = ''cart_guest''"
    by (simp add: getStorageKey_def getItem_def)
next
  assume "denied st"
  then show "getStorageKey parse st = ''cart_guest''"
    by (simp add: getStorageKey_def getItem_def)
next
  show "legacyKey = ''cart''" by (simp add: legacyKey_def)
qed

theorem storage_key_cases_witness:
  "getStorageKey sample_parse storageUser7 = ''cart_user_7''
   \<and> getStorageKey sample_parse storageUser0 = ''cart_guest''
   \<and> getStorageKey sample_parse storageCorruptUser = ''cart_guest''
   \<and> getStorageKey sample_parse emptyStorage = ''cart_guest''
   \<and> getStorageKey sample_parse storageDenied = ''cart_guest''"
proof -
  have p7: \<open>sample_parse ''{"id":7}'' = Some (JObj (Some (NumId 7)))\<close>
    and p0: \<open>sample_parse ''{"id":0}'' = Some (JObj (Some (NumId 0)))\<close>
    and pc: "sample_parse ''{oops'' = None"
    and pn: "sample_parse ''null'' = Some JNull"
    by (simp_all add: sample_parse_def)
  have h7: \<open>\<not> denied storageUser7 \<and> truthy_text (entries storageUser7 ''user'') = Some ''{"id":7}''\<close>
    by (simp add: storageUser7_def emptyStorage_def)
  have h0: \<open>\<not> denied storageUser0 \<and> truthy_text (entries storageUser0 ''user'') = Some ''{"id":0}''\<close>
    by (simp add: storageUser0_def emptyStorage_def)
  have hc: "\<not> denied storageCorruptUser \<and> truthy_text (entries storageCorruptUser ''user'') = Some ''{oops''"
    by (simp add: storageCorruptUser_def emptyStorage_def)
  have he: "\<not> denied emptyStorage \<and> truthy_text (entries emptyStorage ''user'') = None"
    by (simp add: emptyStorage_def)
  have hd: "denied storageDenied" by (simp add: storageDenied_def)
  have t7: "truthy_id (Some (NumId 7))" and t0: "\<not> truthy_id (Some (NumId 0))" by simp_all
  have a: "getStorageKey sample_parse storageUser7 = ''cart_user_'' @ template_id (Some (NumId 7))"
    using storage_key_cases [of storageUser7 _ sample_parse "NumId 7" None] h7 p7 t7 by blast
  have b: "getStorageKey sample_parse storageUser0 = ''cart_guest''"
    using storage_key_cases [of storageUser0 _ sample_parse "NumId 7" "Some (NumId 0)"] h0 p0 t0
    by blast
  have c: "getStorageKey sample_parse storageCorruptUser = ''cart_guest''"
    using storage_key_cases [of storageCorruptUser _ sample_parse "NumId 7" None] hc pc by blast
  have d: "getStorageKey sample_parse emptyStorage = ''cart_guest''"
    using storage_key_cases [of emptyStorage "[]" sample_parse "NumId 7" None] he pn by blast
  have e: "getStorageKey sample_parse storageDenied = ''cart_guest''"
    using storage_key_cases [of storageDenied "[]" sample_parse "NumId 7" None] hd by blast
  have f: "''cart_user_'' @ template_id (Some (NumId 7)) = ''cart_user_7''"
    by (simp add: show_int_def show_nat.simps)
  show ?thesis using a b c d e f by simp
qed

text \<open>
  C9, as the claim states it, fails: for the logged-in user with identifier 7 the key is
  \<^verbatim>\<open>cart_user_7\<close>, not \<^verbatim>\<open>identity:7\<close>, and without a user it is not \<^verbatim>\<open>guest\<close>.
\<close>

theorem storage_key_names_counterexample:
  "getStorageKey sample_parse storageUser7 = ''cart_user_7''
   \<and> getStorageKey sample_parse storageUser7 \<noteq> ''identity:7''
   \<and> getStorageKey sample_parse emptyStorage \<noteq> ''guest''"
  by (simp add: getStorageKey_def getItem_def storageUser7_def emptyStorage_def sample_parse_def
        show_int_def show_nat.simps)

subsection \<open>Loading and the legacy migration\<close>

lemma loadCartBody_migrates:
  assumes "\<not> denied st" "\<not> full st" "truthy_text (entries st key) = None"
    and "entries st legacyKey = Some legacy" "legacy \<noteq> []"
  shows "loadCartBody parse st key =
      (st\<lparr>entries := (entries st)(key \<mapsto> legacy, legacyKey := None),
          written := written st @ [(key, legacy)]\<rparr>,
       case parse legacy of None \<Rightarrow> Inl SyntaxError | Some v \<Rightarrow> Inr v)"
  using assms
  by (simp add: loadCartBody_def getItem_def setItem_def removeItem_def split: option.splits)

lemma loadCartBody_direct:
  assumes "\<not> denied st" "entries st key = Some text" "text \<noteq> []"
  shows "loadCartBody parse st key =
      (st, case parse text of None \<Rightarrow> Inl SyntaxError | Some v \<Rightarrow> Inr v)"
  using assms by (simp add: loadCartBody_def getItem_def split: option.splits)

text \<open>
  C6. With a working storage, no text (or an empty one) under the current key and a
  non-empty text under the legacy key, loading copies that text to the current key with one
  write, removes the legacy key, leaves every other entry alone and makes the parsed legacy
  snapshot the cart (the empty cart if it does not parse). The current key is still the same
  afterwards, and loading again from the resulting storage changes nothing in it and gives
  the same cart: the second load reads the current key and does not migrate.
\<close>

theorem legacy_migration_once:
  assumes ok: "\<not> denied st" "\<not> full st"
    and absent: "truthy_text (entries st (getStorageKey parse st)) = None"
    and legacy: "entries st legacyKey = Some legacy" "legacy \<noteq> []"
  shows "entries (fst (loadCartFromStorage parse st)) (getStorageKey parse st) = Some legacy
    \<and> entries (fst (loadCartFromStorage parse st)) legacyKey = None
    \<and> (\<forall>k. k \<noteq> getStorageKey parse st \<and> k \<noteq> legacyKey \<longrightarrow>
          entries (fst (loadCartFromStorage parse st)) k = entries st k)
    \<and> snd (loadCartFromStorage parse st) =
          (case parse legacy of None \<Rightarrow> JArr [] | Some v \<Rightarrow> v)
    \<and> written (fst (loadCartFromStorage parse st)) =
          written st @ [(getStorageKey parse st, legacy)]
    \<and> getStorageKey parse (fst (loadCartFromStorage parse st)) = getStorageKey parse st
    \<and> loadCartFromStorage parse (fst (loadCartFromStorage parse st)) =
          loadCartFromStorage parse st"
proof -
  let ?key = "getStorageKey parse st"
  let ?st1 = "st\<lparr>entries := (entries st)(?key \<mapsto> legacy, legacyKey := None),
                   written := written st @ [(?key, legacy)]\<rparr>"
  let ?cart = "case parse legacy of None \<Rightarrow> JArr [] | Some v \<Rightarrow> v"
  have nl: "?key \<noteq> legacyKey" by (rule getStorageKey_not_legacy)
  have nu: "?key \<noteq> ''user''" by (rule getStorageKey_not_user)
  have lu: "legacyKey \<noteq> ''user''" by (simp add: legacyKey_def)
  have first: "loadCartFromStorage parse st = (?st1, ?cart)"
    unfolding loadCartFromStorage_def loadCartBody_migrates [OF ok absent legacy]
    by (simp split: option.splits)
  have key1: "getStorageKey parse ?st1 = ?key"
    by (rule getStorageKey_cong) (use nu lu in simp_all)
  have e1: "entries ?st1 ?key = Some legacy" using nl by simp
  have d1: "\<not> denied ?st1" using ok by simp
  have second: "loadCartFromStorage parse ?st1 = (?st1, ?cart)"
    unfolding loadCartFromStorage_def key1 loadCartBody_direct [OF d1 e1 legacy(2)]
    by (simp split: option.splits)
  show ?thesis
    unfolding first using nl key1 second by simp
qed

theorem legacy_migration_once_witness:
  "entries (fst (loadCartFromStorage sample_parse storageWithLegacy)) ''cart_guest'' = Some ''[]''
   \<and> entries (fst (loadCartFromStorage sample_parse storageWithLegacy)) ''cart'' = None
   \<and> entries (fst (loadCartFromStorage sample_parse storageWithLegacy)) ''token'' = Some ''t''
   \<and> snd (loadCartFromStorage sample_parse storageWithLegacy) = JArr []
   \<and> loadCartFromStorage sample_parse (fst (loadCartFromStorage sample_parse storageWithLegacy)) =
       loadCartFromStorage sample_parse storageWithLegacy"
proof -
  have key: "getStorageKey sample_parse storageWithLegacy = ''cart_guest''"
    by (simp add: getStorageKey_def getItem_def storageWithLegacy_def emptyStorage_def
          sample_parse_def)
  have ok: "\<not> denied storageWithLegacy" "\<not> full storageWithLegacy"
    by (simp_all add: storageWithLegacy_def emptyStorage_def)
  have absent: "truthy_text (entries storageWithLegacy (getStorageKey sample_parse storageWithLegacy)) = None"
    unfolding key by (simp add: storageWithLegacy_def emptyStorage_def)
  have legacy: "entries storageWithLegacy legacyKey = Some ''[]''" "''[]'' \<noteq> []"
    by (simp_all add: storageWithLegacy_def emptyStorage_def legacyKey_def)
  note m = legacy_migration_once [OF ok absent legacy, unfolded key]
  have tok: "''token'' \<noteq> ''cart_guest'' \<and> ''token'' \<noteq> legacyKey"
    by (simp add: legacyKey_def)
  have e: "entries storageWithLegacy ''token'' = Some ''t''"
    by (simp add: storageWithLegacy_def emptyStorage_def)
  have p: "sample_parse ''[]'' = Some (JArr [])" by (simp add: sample_parse_def)
  show ?thesis
    using m tok e p by (simp add: legacyKey_def)
qed

subsection \<open>Failures of the storage\<close>

lemma persist_ok:
  "\<not> denied st \<Longrightarrow> \<not> full st \<Longrightarrow>
   persist S P st cart =
     st\<lparr>entries := (entries st)(getStorageKey P st \<mapsto> S cart),
        written := written st @ [(getStorageKey P st, S cart)]\<rparr>"
  by (simp add: persist_def setItem_def)

lemma persist_failed: "denied st \<or> full st \<Longrightarrow> persist S P st cart = st"
  by (auto simp: persist_def setItem_def)

text \<open>
  The failures that the two \<^verbatim>\<open>catch\<close> blocks do absorb. Loading gives the empty cart when
  the storage cannot be read, and when the text it parses (under the current key, or under
  the legacy key during the migration) is not parseable. A render always sets the cart to
  the queued updates applied to the previous cart, whatever the storage does, and when the
  write of the persist effect fails the storage is left as it was.
\<close>

theorem storage_failures_absorbed:
  "(denied st \<longrightarrow> loadCartFromStorage parse st = (st, JArr []))
   \<and> (\<not> denied st \<and> truthy_text (entries st (getStorageKey parse st)) = Some text
        \<and> parse text = None \<longrightarrow> loadCartFromStorage parse st = (st, JArr []))
   \<and> (\<not> denied st \<and> truthy_text (entries st (getStorageKey parse st)) = None
        \<and> truthy_text (entries st legacyKey) = Some text \<and> parse text = None \<longrightarrow>
          snd (loadCartFromStorage parse st) = JArr [])
   \<and> cartItems (render S parse p) = run_ops (pending p) (cartItems p)
   \<and> (denied (store p) \<or> full (store p) \<longrightarrow> store (render S parse p) = store p)"
proof (intro conjI impI)
  assume "denied st"
  then show "loadCartFromStorage parse st = (st, JArr [])"
    by (simp add: loadCartFromStorage_def loadCartBody_def getItem_def)
next
  assume "\<not> denied st \<and> truthy_text (entries st (getStorageKey parse st)) = Some text
        \<and> parse text = None"
  then show "loadCartFromStorage parse st = (st, JArr [])"
    by (simp add: loadCartFromStorage_def loadCartBody_def getItem_def)
next
  assume "\<not> denied st \<and> truthy_text (entries st (getStorageKey parse st)) = None
        \<and> truthy_text (entries st legacyKey) = Some text \<and> parse text = None"
  then show "snd (loadCartFromStorage parse st) = JArr []"
    by (simp add: loadCartFromStorage_def loadCartBody_def getItem_def setItem_def removeItem_def)
next
  show "cartItems (render S parse p) = run_ops (pending p) (cartItems p)"
    by (simp add: render_def run_ops_def)
next
  assume "denied (store p) \<or> full (store p)"
  then show "store (render S parse p) = store p"
    by (simp add: render_def persist_failed)
qed

theorem storage_failures_absorbed_witness:
  "loadCartFromStorage sample_parse storageDenied = (storageDenied, JArr [])
   \<and> loadCartFromStorage sample_parse storageCorrupt = (storageCorrupt, JArr [])
   \<and> snd (loadCartFromStorage sample_parse storageCorruptLegacy) = JArr []
   \<and> cartItems (render sample_stringify sample_parse providerFull) = [productA\<lparr>quantity := 1\<rparr>]
   \<and> store (render sample_stringify sample_parse providerFull) = store providerFull"
proof -
  have a: "loadCartFromStorage sample_parse storageDenied = (storageDenied, JArr [])"
    using storage_failures_absorbed [of storageDenied sample_parse "[]" sample_stringify providerFull]
    by (simp add: storageDenied_def)
  have k2: "getStorageKey sample_parse storageCorrupt = ''cart_guest''"
    by (simp add: getStorageKey_def getItem_def storageCorrupt_def emptyStorage_def sample_parse_def)
  have h2: "\<not> denied storageCorrupt
      \<and> truthy_text (entries storageCorrupt (getStorageKey sample_parse storageCorrupt)) = Some ''{oops''
      \<and> sample_parse ''{oops'' = None"
    unfolding k2 by (simp add: storageCorrupt_def emptyStorage_def sample_parse_def)
  have b: "loadCartFromStorage sample_parse storageCorrupt = (storageCorrupt, JArr [])"
    using storage_failures_absorbed [of storageCorrupt sample_parse "''{oops''" sample_stringify providerFull] h2
    by blast
  have k3: "getStorageKey sample_parse storageCorruptLegacy = ''cart_guest''"
    by (simp add: getStorageKey_def getItem_def storageCorruptLegacy_def emptyStorage_def
          sample_parse_def)
  have h3: "\<not> denied storageCorruptLegacy
      \<and> truthy_text (entries storageCorruptLegacy (getStorageKey sample_parse storageCorruptLegacy)) = None
      \<and> truthy_text (entries storageCorruptLegacy legacyKey) = Some ''{oops''
      \<and> sample_parse ''{oops'' = None"
    unfolding k3 by (simp add: storageCorruptLegacy_def emptyStorage_def sample_parse_def legacyKey_def)
  have c: "snd (loadCartFromStorage sample_parse storageCorruptLegacy) = JArr []"
    using storage_failures_absorbed [of storageCorruptLegacy sample_parse "''{oops''" sample_stringify providerFull] h3
    by blast
  have h4: "denied (store providerFull) \<or> full (store providerFull)"
    by (simp add: providerFull_def emptyStorage_def)
  have d: "cartItems (render sample_stringify sample_parse providerFull) =
             run_ops (pending providerFull) (cartItems providerFull)"
    and e: "store (render sample_stringify sample_parse providerFull) = store providerFull"
    using storage_failures_absorbed [of storageDenied sample_parse "[]" sample_stringify providerFull] h4
    by blast+
  have f: "run_ops (pending providerFull) (cartItems providerFull) = [productA\<lparr>quantity := 1\<rparr>]"
    by (simp add: providerFull_def run_ops_def addToCart_def)
  show ?thesis using a b c d e f by simp
qed

text \<open>
  A write that fails during the migration is caught by the same \<^verbatim>\<open>catch\<close>: with the quota
  used up, nothing under the current key and a legacy snapshot, loading gives the empty
  cart whatever the legacy snapshot holds, where a write that goes through gives its lines.
\<close>

lemma migration_write_failure:
  assumes "\<not> denied st" "full st"
    and "truthy_text (entries st (getStorageKey parse st)) = None"
    and "truthy_text (entries st legacyKey) = Some text"
  shows "loadCartFromStorage parse st = (st, JArr [])"
  using assms
  by (simp add: loadCartFromStorage_def loadCartBody_def getItem_def setItem_def)

lemma migration_write_failure_example:
  "snd (loadCartFromStorage sample_parse storageFullLegacy) = JArr []
   \<and> snd (loadCartFromStorage sample_parse (storageFullLegacy\<lparr>full := False\<rparr>)) =
       JArr [productA\<lparr>quantity := 2\<rparr>]"
  by (simp add: loadCartFromStorage_def loadCartBody_def getStorageKey_def getItem_def
        setItem_def removeItem_def legacyKey_def storageFullLegacy_def emptyStorage_def
        sample_parse_def productA_def)

text \<open>
  C5 asks that a stored snapshot that is not valid serialized cart data gives the empty
  cart, and that no operation of the store throws to its caller. The code does not do that
  at the storage whose current key holds the text \<^verbatim>\<open>null\<close>: the text parses, loading makes
  the cart \<^verbatim>\<open>null\<close> and not the empty cart, and both queries, \<^verbatim>\<open>getCartItemsCount\<close> (which the
  navigation bar calls on every render) and \<^verbatim>\<open>getCartTotal\<close>, then throw a TypeError.
\<close>

theorem null_snapshot_breaks_store:
  "snd (loadCartFromStorage sample_parse storageNullSnapshot) = JNull
   \<and> snd (loadCartFromStorage sample_parse storageNullSnapshot) \<noteq> JArr []
   \<and> cartItems_reduce getCartItemsCount
        (snd (loadCartFromStorage sample_parse storageNullSnapshot)) = Inl TypeError
   \<and> cartItems_reduce (getCartTotal exact_add exact_mul)
        (snd (loadCartFromStorage sample_parse storageNullSnapshot)) = Inl TypeError"
proof -
  have l: "snd (loadCartFromStorage sample_parse storageNullSnapshot) = JNull"
    by (simp add: loadCartFromStorage_def loadCartBody_def getStorageKey_def getItem_def
          storageNullSnapshot_def emptyStorage_def sample_parse_def)
  show ?thesis unfolding l by simp
qed

subsection \<open>Checkout\<close>

text \<open>
  C7. handleSubmit calls clearCart exactly when the cart is not empty and the order-creation
  call succeeds; the order is sent exactly when the cart is not empty. After a successful
  call the cart is empty; after a failed call the cart is what it was and clearCart has not
  been called.
\<close>

theorem checkout_clears_iff_created:
  "(ClearCartCall \<in> set (snd (handleSubmit create add mul formData cart)) \<longleftrightarrow>
      cart \<noteq> [] \<and> (\<exists>r. create (makeOrder add mul formData cart) = Inr r))
   \<and> (CreateOrder ord \<in> set (snd (handleSubmit create add mul formData cart)) \<longleftrightarrow>
      cart \<noteq> [] \<and> ord = makeOrder add mul formData cart)
   \<and> (cart \<noteq> [] \<and> create (makeOrder add mul formData cart) = Inr r \<longrightarrow>
        fst (handleSubmit create add mul formData cart) = [])
   \<and> (create (makeOrder add mul formData cart) = Inl e \<longrightarrow>
        fst (handleSubmit create add mul formData cart) = cart
        \<and> ClearCartCall \<notin> set (snd (handleSubmit create add mul formData cart)))"
proof (cases "cart = []")
  case True
  then have "handleSubmit create add mul formData cart = (cart, [ToastError ''Your cart is empty!''])"
    by (simp add: handleSubmit_def)
  then show ?thesis using True by simp
next
  case False
  show ?thesis
  proof (cases "create (makeOrder add mul formData cart)")
    case (Inl e')
    then have "handleSubmit create add mul formData cart =
        (cart, [CreateOrder (makeOrder add mul formData cart), ConsoleError e',
                ToastError ''Failed to place order. Please try again.''])"
      using False by (simp add: handleSubmit_def)
    then show ?thesis using False Inl by auto
  next
    case (Inr r')
    then have "handleSubmit create add mul formData cart =
        ([], [CreateOrder (makeOrder add mul formData cart), ClearCartCall,
              ToastSuccess ''Order placed successfully!'', Navigate ''/''])"
      using False by (simp add: handleSubmit_def clearCart_def)
    then show ?thesis using False Inr by auto
  qed
qed

theorem checkout_clears_iff_created_witness:
  "handleSubmit acceptOrder exact_add exact_mul [(''name'', ''N'')] [productA\<lparr>quantity := 2\<rparr>] =
     ([], [CreateOrder (makeOrder exact_add exact_mul [(''name'', ''N'')] [productA\<lparr>quantity := 2\<rparr>]), ClearCartCall,
           ToastSuccess ''Order placed successfully!'', Navigate ''/''])
   \<and> fst (handleSubmit rejectOrder exact_add exact_mul [(''name'', ''N'')] [productA\<lparr>quantity := 2\<rparr>]) =
       [productA\<lparr>quantity := 2\<rparr>]
   \<and> ClearCartCall \<notin> set (snd (handleSubmit rejectOrder exact_add exact_mul [(''name'', ''N'')] [productA\<lparr>quantity := 2\<rparr>]))
   \<and> ClearCartCall \<in> set (snd (handleSubmit acceptOrder exact_add exact_mul [(''name'', ''N'')] [productA\<lparr>quantity := 2\<rparr>]))"
proof -
  let ?f = "[(''name'', ''N'')]"
  let ?c = "[productA\<lparr>quantity := 2\<rparr>]"
  have ne: "?c \<noteq> []" by simp
  have ok: "acceptOrder (makeOrder exact_add exact_mul ?f ?c) = Inr ()" by (simp add: acceptOrder_def)
  have ko: "rejectOrder (makeOrder exact_add exact_mul ?f ?c) = Inl (HttpError 500)" by (simp add: rejectOrder_def)
  have a: "ClearCartCall \<in> set (snd (handleSubmit acceptOrder exact_add exact_mul ?f ?c))"
    using checkout_clears_iff_created [of acceptOrder exact_add exact_mul ?f ?c "makeOrder exact_add exact_mul ?f ?c" "()" NetworkError] ne ok
    by blast
  have b: "fst (handleSubmit rejectOrder exact_add exact_mul ?f ?c) = ?c
        \<and> ClearCartCall \<notin> set (snd (handleSubmit rejectOrder exact_add exact_mul ?f ?c))"
    using checkout_clears_iff_created [of rejectOrder exact_add exact_mul ?f ?c "makeOrder exact_add exact_mul ?f ?c" "()" "HttpError 500"] ko
    by blast
  have c: "handleSubmit acceptOrder exact_add exact_mul ?f ?c =
     ([], [CreateOrder (makeOrder exact_add exact_mul ?f ?c), ClearCartCall,
           ToastSuccess ''Order placed successfully!'', Navigate ''/''])"
    by (simp add: handleSubmit_def acceptOrder_def clearCart_def)
  show ?thesis using a b c by simp
qed

subsection \<open>Renders and writes\<close>

lemma fold_call: "fold call cs p = p\<lparr>pending := pending p @ cs\<rparr>"
  by (induction cs arbitrary: p) (simp_all add: call_def)

lemma dispatch_nonempty:
  "pending p = [] \<Longrightarrow> cs \<noteq> [] \<Longrightarrow>
   dispatch S P cs p =
     \<lparr>cartItems = run_ops cs (cartItems p), pending = [],
      store = persist S P (store p) (run_ops cs (cartItems p))\<rparr>"
  by (simp add: dispatch_def fold_call render_def)

lemma persist_keeps_key:
  "getStorageKey P (persist S P st cart) = getStorageKey P st"
proof (cases "denied st \<or> full st")
  case True
  then show ?thesis by (simp add: persist_failed)
next
  case False
  then show ?thesis
    using getStorageKey_not_user [of P st]
    by (simp add: persist_ok) (rule getStorageKey_cong, simp_all)
qed

lemma persist_keeps_flags:
  "denied (persist S P st cart) = denied st \<and> full (persist S P st cart) = full st"
  by (cases "denied st \<or> full st") (auto simp: persist_failed persist_ok)

lemma singles_written:
  "\<not> denied (store p) \<Longrightarrow> \<not> full (store p) \<Longrightarrow> pending p = [] \<Longrightarrow>
   written (store (fold (dispatch S P) (map (\<lambda>c. [c]) ops) p)) =
     written (store p) @
     map (\<lambda>k. (getStorageKey P (store p), S (run_ops (take (Suc k) ops) (cartItems p))))
       [0..<length ops]"
proof (induction ops arbitrary: p)
  case Nil
  then show ?case by simp
next
  case (Cons c cs)
  let ?p' = "dispatch S P [c] p"
  have p': "?p' = \<lparr>cartItems = run_ops [c] (cartItems p), pending = [],
      store = persist S P (store p) (run_ops [c] (cartItems p))\<rparr>"
    using Cons.prems(3) by (simp add: dispatch_nonempty)
  have flags: "\<not> denied (store ?p')" "\<not> full (store ?p')" "pending ?p' = []"
    using Cons.prems persist_keeps_flags [of S P "store p"] by (simp_all add: p')
  have key: "getStorageKey P (store ?p') = getStorageKey P (store p)"
    by (simp add: p' persist_keeps_key)
  have w: "written (store ?p') =
      written (store p) @ [(getStorageKey P (store p), S (run_ops [c] (cartItems p)))]"
    using Cons.prems by (simp add: p' persist_ok)
  have items: "cartItems ?p' = apply_op c (cartItems p)"
    by (simp add: p' run_ops_def)
  have "written (store (fold (dispatch S P) (map (\<lambda>c. [c]) cs) ?p')) =
      written (store ?p') @
      map (\<lambda>k. (getStorageKey P (store ?p'), S (run_ops (take (Suc k) cs) (cartItems ?p'))))
        [0..<length cs]"
    by (rule Cons.IH [OF flags])
  then show ?case
    unfolding key w items
    by (simp add: run_ops_def map_upt_Suc del: upt_Suc)
qed

text \<open>
  C8, as the code has it. With a working storage and nothing queued, an event handler that
  makes one or more mutation calls is followed by one render and exactly one write: the
  snapshot of the cart after all of its calls, under the current key. When every call is
  made by a handler of its own, n calls give n writes, the k-th being the snapshot after the
  first k calls.
\<close>

theorem persist_once_per_render:
  assumes "\<not> denied (store p)" "\<not> full (store p)" "pending p = []"
  shows "(calls \<noteq> [] \<longrightarrow>
            cartItems (dispatch S P calls p) = run_ops calls (cartItems p)
          \<and> written (store (dispatch S P calls p)) =
              written (store p) @
              [(getStorageKey P (store p), S (run_ops calls (cartItems p)))]
          \<and> entries (store (dispatch S P calls p)) (getStorageKey P (store p)) =
              Some (S (run_ops calls (cartItems p))))
       \<and> written (store (fold (dispatch S P) (map (\<lambda>c. [c]) ops) p)) =
           written (store p) @
           map (\<lambda>k. (getStorageKey P (store p), S (run_ops (take (Suc k) ops) (cartItems p))))
             [0..<length ops]"
proof (intro conjI impI)
  assume ne: "calls \<noteq> []"
  note d = dispatch_nonempty [OF assms(3) ne, of S P]
  show "cartItems (dispatch S P calls p) = run_ops calls (cartItems p)"
    by (simp add: d)
  show "written (store (dispatch S P calls p)) =
      written (store p) @ [(getStorageKey P (store p), S (run_ops calls (cartItems p)))]"
    using assms by (simp add: d persist_ok)
  show "entries (store (dispatch S P calls p)) (getStorageKey P (store p)) =
      Some (S (run_ops calls (cartItems p)))"
    using assms by (simp add: d persist_ok)
next
  show "written (store (fold (dispatch S P) (map (\<lambda>c. [c]) ops) p)) =
      written (store p) @
      map (\<lambda>k. (getStorageKey P (store p), S (run_ops (take (Suc k) ops) (cartItems p))))
        [0..<length ops]"
    using assms by (rule singles_written)
qed

theorem persist_once_per_render_witness:
  "written (store (dispatch sample_stringify sample_parse
       [AddToCart productA, AddToCart productA] freshProvider)) =
     [(''cart_guest'', ''[1x2;]'')]
   \<and> written (store (fold (dispatch sample_stringify sample_parse)
       [[AddToCart productA], [AddToCart productA]] freshProvider)) =
     [(''cart_guest'', ''[1x1;]''), (''cart_guest'', ''[1x2;]'')]"
proof -
  let ?ops = "[AddToCart productA, AddToCart productA]"
  have ok: "\<not> denied (store freshProvider)" "\<not> full (store freshProvider)"
    "pending freshProvider = []"
    by (simp_all add: freshProvider_def emptyStorage_def)
  note t = persist_once_per_render [OF ok, of ?ops sample_stringify sample_parse ?ops]
  have ne: "?ops \<noteq> []" by simp
  have key: "getStorageKey sample_parse (store freshProvider) = ''cart_guest''"
    by (simp add: getStorageKey_def getItem_def freshProvider_def emptyStorage_def sample_parse_def)
  have w0: "written (store freshProvider) = []"
    by (simp add: freshProvider_def emptyStorage_def)
  have r1: "run_ops [AddToCart productA] (cartItems freshProvider) = [productA\<lparr>quantity := 1\<rparr>]"
    by (simp add: run_ops_def addToCart_def freshProvider_def)
  have r2: "run_ops ?ops (cartItems freshProvider) = [productA\<lparr>quantity := 2\<rparr>]"
    by (simp add: run_ops_def addToCart_def freshProvider_def)
  have s1: "sample_stringify [productA\<lparr>quantity := 1\<rparr>] = ''[1x1;]''"
    by (simp add: sample_stringify_def productA_def show_int_def show_nat.simps)
  have s2: "sample_stringify [productA\<lparr>quantity := 2\<rparr>] = ''[1x2;]''"
    by (simp add: sample_stringify_def productA_def show_int_def show_nat.simps)
  have up: "[0..<length ?ops] = [0, 1]" by (simp add: upt_rec)
  have a: "written (store (dispatch sample_stringify sample_parse ?ops freshProvider)) =
      [(''cart_guest'', ''[1x2;]'')]"
    using t [THEN conjunct1, rule_format, OF ne, THEN conjunct2, THEN conjunct1]
    unfolding key w0 r2 s2 by simp
  have b: "written (store (fold (dispatch sample_stringify sample_parse)
       (map (\<lambda>c. [c]) ?ops) freshProvider)) =
     [(''cart_guest'', ''[1x1;]''), (''cart_guest'', ''[1x2;]'')]"
    using t [THEN conjunct2]
    unfolding key w0 up by (simp add: r1 r2 s1 s2)
  show ?thesis using a b by simp
qed

text \<open>
  C8, as the claim states it, fails: one click on the product page with quantity 2 calls
  addToCart twice, the cart gets one line with quantity 2, and one snapshot is written,
  not two.
\<close>

theorem batched_calls_counterexample:
  "length (handleAddToCart productA 2) = 2
   \<and> cartItems (dispatch sample_stringify sample_parse (handleAddToCart productA 2) freshProvider) =
       [productA\<lparr>quantity := 2\<rparr>]
   \<and> length (written (store
        (dispatch sample_stringify sample_parse (handleAddToCart productA 2) freshProvider))) = 1"
proof -
  have h: "handleAddToCart productA 2 = [AddToCart productA, AddToCart productA]"
    by (simp add: handleAddToCart_def numeral_2_eq_2)
  have ok: "\<not> denied (store freshProvider)" "\<not> full (store freshProvider)"
    and pe: "pending freshProvider = []"
    and w0: "written (store freshProvider) = []"
    by (simp_all add: freshProvider_def emptyStorage_def)
  have r: "run_ops [AddToCart productA, AddToCart productA] (cartItems freshProvider) =
      [productA\<lparr>quantity := 2\<rparr>]"
    by (simp add: run_ops_def addToCart_def freshProvider_def)
  show ?thesis
    unfolding h using ok r w0
    by (simp add: dispatch_nonempty [OF pe] persist_ok)
qed

end
